theory Spec2Isabelle
  imports Complex_Main "HOL-Library.AList"
begin

section \<open>Python values\<close>

text \<open>
  A configuration block holds arbitrary Python objects. The values the Flash model
  range-checks or compares are kept in one datatype: \<open>None\<close>, booleans, integers,
  strings, members of an \<open>Enum\<close> class (class name, member name) and other objects
  known by name only (the sentinel \<open>useDefault\<close>). Floats are left out.
\<close>

datatype pyval =
  PyNone
| PyBool bool
| PyInt int
| PyStr string
| PyEnum string string
| PyObject string

text \<open>
  Python's \<open>==\<close> on these values: \<open>bool\<close> is a subclass of \<open>int\<close>, so
  \<open>False == 0\<close> and \<open>True == 1\<close>; an \<open>Enum\<close> member (a plain \<open>Enum\<close>, not an
  \<open>IntEnum\<close>) equals only itself, and never a string. \<open>x in xs\<close> on a list holds
  when some element compares equal to \<open>x\<close>. \<open>x is True\<close> is identity with the
  singleton \<open>True\<close>, which the integer \<open>1\<close> is not.
\<close>

definition as_int :: "pyval \<Rightarrow> int option" where
  "as_int v = (case v of PyBool b \<Rightarrow> Some (if b then 1 else 0) | PyInt i \<Rightarrow> Some i | _ \<Rightarrow> None)"

definition py_eq :: "pyval \<Rightarrow> pyval \<Rightarrow> bool" where
  "py_eq x y = (case (as_int x, as_int y) of (Some i, Some j) \<Rightarrow> i = j | _ \<Rightarrow> x = y)"

definition py_ne :: "pyval \<Rightarrow> pyval \<Rightarrow> bool" where
  "py_ne x y = (\<not> py_eq x y)"


definition is_True :: "pyval \<Rightarrow> bool" where
  "is_True v = (v = PyBool True)"

datatype error = ValueError | AttributeError string string

section \<open>The balance type enumerations\<close>

text \<open>
  The classes are imported from \<open>idaes.core\<close>; their members are the valid values
  listed in the documentation of the three balance type options of \<open>FlashData.CONFIG\<close>.
  Iterating an \<open>Enum\<close> class yields its members.
\<close>

definition MaterialBalanceType :: "pyval list" where
  "MaterialBalanceType = map (PyEnum ''MaterialBalanceType'')
     [''none'', ''componentPhase'', ''componentTotal'', ''elementTotal'', ''total'']"

definition EnergyBalanceType :: "pyval list" where
  "EnergyBalanceType = map (PyEnum ''EnergyBalanceType'')
     [''none'', ''enthalpyTotal'', ''enthalpyPhase'', ''energyTotal'', ''energyPhase'']"

definition MomentumBalanceType :: "pyval list" where
  "MomentumBalanceType = map (PyEnum ''MomentumBalanceType'')
     [''none'', ''pressureTotal'', ''pressurePhase'', ''momentumTotal'', ''momentumPhase'']"

definition useDefault :: pyval where
  "useDefault = PyObject ''useDefault''"

section \<open>FlashData.CONFIG\<close>

text \<open>
  A declared item is a \<open>ConfigValue\<close> (default, domain, description, doc) or a nested
  \<open>ConfigBlock\<close>. A domain is a callable that returns the accepted value or raises.
  \<open>In(xs)\<close> accepts a value that is \<open>in xs\<close> and returns it unchanged, and raises
  \<open>ValueError\<close> otherwise. \<open>is_physical_parameter_block\<close> is defined in
  \<open>idaes.core.util.config\<close>, outside these sources, and is a parameter \<open>ppb\<close> of
  the model. What \<open>ConfigValue\<close> does around the call of its domain is not modelled.
\<close>

datatype domain = In "pyval list" | is_physical_parameter_block

datatype config_item =
  ConfigValue (default_value: pyval) (domain: domain) (description: string) (doc: "string list")
| ConfigBlock (implicit: bool) (description: string) (doc: "string list")


definition CONFIG :: "(string \<times> config_item) list" where
  "CONFIG =
    [(''dynamic'', ConfigValue (PyBool False) (In [PyBool False])
        ''Dynamic model flag - must be False''
        [''Indicates whether this model will be dynamic or not,'',
         ''**default** = False. Flash units do not support dynamic behavior.'']),
     (''has_holdup'', ConfigValue (PyBool False) (In [PyBool False])
        ''Holdup construction flag - must be False''
        [''Indicates whether holdup terms should be constructed or not.'',
         ''**default** - False. Flash units do not have defined volume, thus'',
         ''this must be False.'']),
     (''material_balance_type'',
      ConfigValue (PyEnum ''MaterialBalanceType'' ''componentPhase'') (In MaterialBalanceType)
        ''Material balance construction flag''
        [''Indicates what type of mass balance should be constructed,'',
         ''**default** - MaterialBalanceType.componentPhase.'',
         ''**Valid values:** {'',
         ''**MaterialBalanceType.none** - exclude material balances,'',
         ''**MaterialBalanceType.componentPhase** - use phase component balances,'',
         ''**MaterialBalanceType.componentTotal** - use total component balances,'',
         ''**MaterialBalanceType.elementTotal** - use total element balances,'',
         ''**MaterialBalanceType.total** - use total material balance.}'']),
     (''energy_balance_type'',
      ConfigValue (PyEnum ''EnergyBalanceType'' ''enthalpyTotal'') (In EnergyBalanceType)
        ''Energy balance construction flag''
        [''Indicates what type of energy balance should be constructed,'',
         ''**default** - EnergyBalanceType.enthalpyTotal.'',
         ''**Valid values:** {'',
         ''**EnergyBalanceType.none** - exclude energy balances,'',
         ''**EnergyBalanceType.enthalpyTotal** - single enthalpy balance for material,'',
         ''**EnergyBalanceType.enthalpyPhase** - enthalpy balances for each phase,'',
         ''**EnergyBalanceType.energyTotal** - single energy balance for material,'',
         ''**EnergyBalanceType.energyPhase** - energy balances for each phase.}'']),
     (''momentum_balance_type'',
      ConfigValue (PyEnum ''MomentumBalanceType'' ''pressureTotal'') (In MomentumBalanceType)
        ''Momentum balance construction flag''
        [''Indicates what type of momentum balance should be constructed,'',
         ''**default** - MomentumBalanceType.pressureTotal.'',
         ''**Valid values:** {'',
         ''**MomentumBalanceType.none** - exclude momentum balances,'',
         ''**MomentumBalanceType.pressureTotal** - single pressure balance for material,'',
         ''**MomentumBalanceType.pressurePhase** - pressure balances for each phase,'',
         ''**MomentumBalanceType.momentumTotal** - single momentum balance for material,'',
         ''**MomentumBalanceType.momentumPhase** - momentum balances for each phase.}'']),
     (''has_heat_transfer'', ConfigValue (PyBool True) (In [PyBool True, PyBool False])
        ''Heat transfer term construction flag''
        [''Indicates whether terms for heat transfer should be constructed,'',
         ''**default** - False.'',
         ''**Valid values:** {'',
         ''**True** - include heat transfer terms,'',
         ''**False** - exclude heat transfer terms.}'']),
     (''has_pressure_change'', ConfigValue (PyBool True) (In [PyBool True, PyBool False])
        ''Pressure change term construction flag''
        [''Indicates whether terms for pressure change should be'',
         ''constructed,'',
         ''**default** - True.'',
         ''**Valid values:** {'',
         ''**True** - include pressure change terms,'',
         ''**False** - exclude pressure change terms.}'']),
     (''property_package'', ConfigValue useDefault is_physical_parameter_block
        ''Property package to use for control volume''
        [''Property parameter object used to define property calculations,'',
         ''**default** - useDefault.'',
         ''**Valid values:** {'',
         ''**useDefault** - use default package from parent model or flowsheet,'',
         ''**PropertyParameterObject** - a PropertyParameterBlock object.}'']),
     (''property_package_args'', ConfigBlock True
        ''Arguments to use for constructing property packages''
        [''A ConfigBlock with arguments to be passed to a property block(s)'',
         ''and used when constructing these,'',
         ''**default** - None.'',
         ''**Valid values:** {'',
         ''see property package for documentation.}''])]"

definition declared_value :: "string \<Rightarrow> config_item option" where
  "declared_value name =
     (case map_of CONFIG name of Some (ConfigValue d m s t) \<Rightarrow> Some (ConfigValue d m s t) | _ \<Rightarrow> None)"


definition declared_default :: "string \<Rightarrow> pyval option" where
  "declared_default name = map_option default_value (declared_value name)"

definition declared_doc :: "string \<Rightarrow> string list" where
  "declared_doc name = (case map_of CONFIG name of Some d \<Rightarrow> doc d | None \<Rightarrow> [])"

section \<open>FlashData.build\<close>

text \<open>
  The configuration as \<open>build\<close> reads it, after \<open>UnitModelBlockData.build\<close> has
  resolved the property package: the seven range-checked options keep the Python value
  they were given, the property package is a parameter block with its phase list.
\<close>

record physical_parameter_block =
  phase_list :: "string list"

record flash_config =
  dynamic :: pyval
  has_holdup :: pyval
  material_balance_type :: pyval
  energy_balance_type :: pyval
  momentum_balance_type :: pyval
  has_heat_transfer :: pyval
  has_pressure_change :: pyval
  property_package :: physical_parameter_block
  property_package_args :: "(string \<times> pyval) list"

text \<open>
  The configuration of a Flash constructed with no option given: every option holds
  the default that \<open>CONFIG\<close> declares for it; \<open>pp\<close> is the property package that
  \<open>useDefault\<close> resolves to.
\<close>

definition default_config :: "physical_parameter_block \<Rightarrow> flash_config option" where
  "default_config pp =
     (case map declared_default
        [''dynamic'', ''has_holdup'', ''material_balance_type'', ''energy_balance_type'',
         ''momentum_balance_type'', ''has_heat_transfer'', ''has_pressure_change''] of
        [Some d, Some h, Some m, Some e, Some p, Some q, Some c] \<Rightarrow>
          Some \<lparr>dynamic = d, has_holdup = h, material_balance_type = m,
                energy_balance_type = e, momentum_balance_type = p,
                has_heat_transfer = q, has_pressure_change = c,
                property_package = pp, property_package_args = []\<rparr>
      | _ \<Rightarrow> None)"

text \<open>
  The classes \<open>ControlVolume0DBlock\<close>, \<open>Separator\<close>, \<open>Port\<close> and
  \<open>UnitModelBlockData\<close> are not part of these sources. A control volume is the
  arguments it was constructed with and the calls \<open>build\<close> makes on it, in order, with
  their keyword arguments; a separator is its arguments. A member of such an object
  (\<open>self.control_volume.heat\<close>, \<open>self.split.Vap\<close>) is read through the parameter
  \<open>defined\<close>, which says whether the object has the member when \<open>build\<close> reads it:
  reading a member that is not there raises \<open>AttributeError\<close>. The constructors and
  methods of these classes, \<open>super().build()\<close> among them, are taken to return; what
  they construct inside their own objects is not modelled.
\<close>

datatype reference = Member string string

datatype cv_call =
  add_state_blocks pyval
| add_material_balances pyval pyval
| add_energy_balances pyval pyval
| add_momentum_balances pyval pyval

record control_volume =
  cv_dynamic :: pyval
  cv_has_holdup :: pyval
  cv_property_package :: physical_parameter_block
  cv_property_package_args :: "(string \<times> pyval) list"
  calls :: "cv_call list"

record separator =
  sep_property_package :: physical_parameter_block
  sep_property_package_args :: "(string \<times> pyval) list"
  outlet_list :: "string list"
  split_basis :: pyval
  ideal_separation :: pyval
  ideal_split_map :: "(string \<times> string) list"
  mixed_state_block :: reference

datatype component =
  ControlVolume0DBlock control_volume
| Separator separator
| InletPort
| Port reference
| Reference reference

record flash =
  config :: flash_config
  components :: "(string \<times> component) list"

definition UnitModelBlockData_build :: "flash_config \<Rightarrow> flash" where
  "UnitModelBlockData_build cfg = \<lparr>config = cfg, components = []\<rparr>"

definition setattr :: "flash \<Rightarrow> string \<Rightarrow> component \<Rightarrow> flash" where
  "setattr b name c = b\<lparr>components := AList.update name c (components b)\<rparr>"

definition getattr :: "flash \<Rightarrow> string \<Rightarrow> component option" where
  "getattr b name = map_of (components b) name"


definition read_member :: "(string \<Rightarrow> string \<Rightarrow> bool) \<Rightarrow> string \<Rightarrow> string \<Rightarrow> error + reference" where
  "read_member defined obj m = (if defined obj m then Inr (Member obj m) else Inl (AttributeError obj m))"

text \<open>A method call on \<open>self.control_volume\<close> is appended to the calls of that object.\<close>

fun record_call :: "cv_call \<Rightarrow> component \<Rightarrow> component" where
  "record_call c (ControlVolume0DBlock cv) = ControlVolume0DBlock (cv\<lparr>calls := calls cv @ [c]\<rparr>)"
| "record_call c x = x"

definition on_control_volume :: "cv_call \<Rightarrow> flash \<Rightarrow> flash" where
  "on_control_volume c b =
     b\<lparr>components := map (\<lambda>(n, x). if n = ''control_volume'' then (n, record_call c x) else (n, x))
                        (components b)\<rparr>"

text \<open>
  \<open>add_inlet_port()\<close> is inherited from \<open>UnitModelBlockData\<close>; the port it adds is the
  attribute \<open>inlet\<close> that \<open>_get_stream_table_contents\<close> reads.
\<close>

definition add_inlet_port :: "flash \<Rightarrow> flash" where
  "add_inlet_port b = setattr b ''inlet'' InletPort"

definition add_object_reference :: "(string \<Rightarrow> string \<Rightarrow> bool) \<Rightarrow> flash \<Rightarrow> string \<Rightarrow> string \<Rightarrow> string \<Rightarrow> error + flash" where
  "add_object_reference defined b attr_name obj m =
     (case read_member defined obj m of
        Inl e \<Rightarrow> Inl e
      | Inr r \<Rightarrow> Inr (setattr b attr_name (Reference r)))"

text \<open>Lines 152 to 172: the control volume and its balances.\<close>

definition build_control_volume :: "flash \<Rightarrow> flash" where
  "build_control_volume b0 =
     (let cfg = config b0;
          b1 = setattr b0 ''control_volume'' (ControlVolume0DBlock
                 \<lparr>cv_dynamic = dynamic cfg, cv_has_holdup = has_holdup cfg,
                  cv_property_package = property_package cfg,
                  cv_property_package_args = property_package_args cfg,
                  calls = []\<rparr>);
          b2 = on_control_volume (add_state_blocks (PyBool True)) b1;
          b3 = on_control_volume (add_material_balances (material_balance_type cfg) (PyBool True)) b2;
          b4 = on_control_volume (add_energy_balances (energy_balance_type cfg) (has_heat_transfer cfg)) b3
      in on_control_volume (add_momentum_balances (momentum_balance_type cfg) (has_pressure_change cfg)) b4)"

text \<open>Lines 174 to 194: the inlet port, the separator and the two outlet ports.\<close>

definition split_map_of :: "string list \<Rightarrow> (string \<times> string) list" where
  "split_map_of phases = fold (\<lambda>p m. AList.update p p m) phases []"

definition add_ports :: "(string \<Rightarrow> string \<Rightarrow> bool) \<Rightarrow> flash \<Rightarrow> error + flash" where
  "add_ports defined b0 =
     (let cfg = config b0;
          b1 = add_inlet_port b0;
          split_map = split_map_of (phase_list (property_package cfg))
      in case read_member defined ''control_volume'' ''properties_out'' of
           Inl e \<Rightarrow> Inl e
         | Inr properties_out \<Rightarrow>
            (let b2 = setattr b1 ''split'' (Separator
                        \<lparr>sep_property_package = property_package cfg,
                         sep_property_package_args = property_package_args cfg,
                         outlet_list = [''Vap'', ''Liq''],
                         split_basis = PyEnum ''SplittingType'' ''phaseFlow'',
                         ideal_separation = PyBool True,
                         ideal_split_map = split_map,
                         mixed_state_block = properties_out\<rparr>)
             in case read_member defined ''split'' ''Vap'' of
                  Inl e \<Rightarrow> Inl e
                | Inr vap \<Rightarrow>
                   (case read_member defined ''split'' ''Liq'' of
                      Inl e \<Rightarrow> Inl e
                    | Inr liq \<Rightarrow>
                        Inr (setattr (setattr b2 ''vap_outlet'' (Port vap)) ''liq_outlet'' (Port liq)))))"

text \<open>Lines 196 to 202: the references to the heat duty and the pressure change.\<close>

definition add_references :: "(string \<Rightarrow> string \<Rightarrow> bool) \<Rightarrow> flash \<Rightarrow> error + flash" where
  "add_references defined b0 =
     (let cfg = config b0 in
      case (if is_True (has_heat_transfer cfg) \<and> py_ne (energy_balance_type cfg) (PyStr ''none'')
            then add_object_reference defined b0 ''heat_duty'' ''control_volume'' ''heat''
            else Inr b0) of
        Inl e \<Rightarrow> Inl e
      | Inr b1 \<Rightarrow>
          (if is_True (has_pressure_change cfg) \<and> py_ne (momentum_balance_type cfg) (PyStr ''none'')
           then add_object_reference defined b1 ''deltaP'' ''control_volume'' ''deltaP''
           else Inr b1))"

definition build :: "(string \<Rightarrow> string \<Rightarrow> bool) \<Rightarrow> flash_config \<Rightarrow> error + flash" where
  "build defined cfg =
     (case add_ports defined (build_control_volume (UnitModelBlockData_build cfg)) of
        Inl e \<Rightarrow> Inl e
      | Inr b \<Rightarrow> add_references defined b)"


section \<open>The solution tests of the solvent reboiler\<close>

text \<open>
  \<open>test_solution\<close> of \<open>TestAbsorberVaporFlow\<close> and of \<open>TestAbsorberHeatDuty\<close> in
  \<open>test_solvent_reboiler.py\<close>: each is a list of assertions about the solved model.
  A quantity is \<open>value(model.fs.unit.<port>.<var>[0])\<close> or
  \<open>value(model.fs.unit.heat_duty[0])\<close>; a solved model gives every quantity a number,
  taken here as a real. An assertion is \<open>pytest.approx(expected, rel=r) == value(q)\<close> or
  \<open>value(q) <= u\<close>. \<open>approx\<close> with only \<open>rel\<close> given accepts a value within
  \<open>max(rel * abs(expected), 1e-12)\<close> of the expected one.
\<close>

datatype port_var = flow_mol | mole_frac_comp string | temperature | pressure








section \<open>Python comparisons and the declared domains\<close>





lemma py_ne_enum_str: "py_ne (PyEnum c m) (PyStr s)"
  by (simp add: py_ne_def py_eq_def as_int_def)


lemma declared_defaults:
  "declared_default ''dynamic'' = Some (PyBool False)"
  "declared_default ''has_holdup'' = Some (PyBool False)"
  "declared_default ''material_balance_type'' = Some (PyEnum ''MaterialBalanceType'' ''componentPhase'')"
  "declared_default ''energy_balance_type'' = Some (PyEnum ''EnergyBalanceType'' ''enthalpyTotal'')"
  "declared_default ''momentum_balance_type'' = Some (PyEnum ''MomentumBalanceType'' ''pressureTotal'')"
  "declared_default ''has_heat_transfer'' = Some (PyBool True)"
  "declared_default ''has_pressure_change'' = Some (PyBool True)"
  by (simp_all add: declared_default_def declared_value_def CONFIG_def)

lemma default_config_eq:
  "default_config pp =
     Some \<lparr>dynamic = PyBool False, has_holdup = PyBool False,
           material_balance_type = PyEnum ''MaterialBalanceType'' ''componentPhase'',
           energy_balance_type = PyEnum ''EnergyBalanceType'' ''enthalpyTotal'',
           momentum_balance_type = PyEnum ''MomentumBalanceType'' ''pressureTotal'',
           has_heat_transfer = PyBool True, has_pressure_change = PyBool True,
           property_package = pp, property_package_args = []\<rparr>"
  by (simp add: default_config_def declared_defaults)



section \<open>What a build that returns has constructed\<close>

lemmas build_defs =
  build_def add_ports_def add_references_def add_object_reference_def read_member_def
  add_inlet_port_def build_control_volume_def UnitModelBlockData_build_def
  on_control_volume_def setattr_def Let_def



lemma build_Inr:
  assumes "build defined cfg = Inr b"
  shows "components b =
     [(''control_volume'', ControlVolume0DBlock
         \<lparr>cv_dynamic = dynamic cfg, cv_has_holdup = has_holdup cfg,
          cv_property_package = property_package cfg,
          cv_property_package_args = property_package_args cfg,
          calls = [add_state_blocks (PyBool True),
                   add_material_balances (material_balance_type cfg) (PyBool True),
                   add_energy_balances (energy_balance_type cfg) (has_heat_transfer cfg),
                   add_momentum_balances (momentum_balance_type cfg) (has_pressure_change cfg)]\<rparr>),
      (''inlet'', InletPort),
      (''split'', Separator
         \<lparr>sep_property_package = property_package cfg,
          sep_property_package_args = property_package_args cfg,
          outlet_list = [''Vap'', ''Liq''],
          split_basis = PyEnum ''SplittingType'' ''phaseFlow'',
          ideal_separation = PyBool True,
          ideal_split_map = split_map_of (phase_list (property_package cfg)),
          mixed_state_block = Member ''control_volume'' ''properties_out''\<rparr>),
      (''vap_outlet'', Port (Member ''split'' ''Vap'')),
      (''liq_outlet'', Port (Member ''split'' ''Liq''))] @
     (if is_True (has_heat_transfer cfg) \<and> py_ne (energy_balance_type cfg) (PyStr ''none'')
      then [(''heat_duty'', Reference (Member ''control_volume'' ''heat''))] else []) @
     (if is_True (has_pressure_change cfg) \<and> py_ne (momentum_balance_type cfg) (PyStr ''none'')
      then [(''deltaP'', Reference (Member ''control_volume'' ''deltaP''))] else [])"
  using assms by (auto simp: build_defs split: if_splits sum.splits)

text \<open>
  \<open>build\<close> returns exactly when every member it reads is there: the outlet state of
  the control volume, the two outlets of the separator, and \<open>heat\<close> and \<open>deltaP\<close> of the
  control volume where the guard of the reference lets the read happen.
\<close>

lemma build_returns:
  "(\<exists>b. build defined cfg = Inr b) =
     (defined ''control_volume'' ''properties_out'' \<and>
      defined ''split'' ''Vap'' \<and> defined ''split'' ''Liq'' \<and>
      (is_True (has_heat_transfer cfg) \<and> py_ne (energy_balance_type cfg) (PyStr ''none'')
         \<longrightarrow> defined ''control_volume'' ''heat'') \<and>
      (is_True (has_pressure_change cfg) \<and> py_ne (momentum_balance_type cfg) (PyStr ''none'')
         \<longrightarrow> defined ''control_volume'' ''deltaP''))"
  by (auto simp: build_defs split: if_splits sum.splits)

text \<open>
  With heat transfer asked for and a control volume that has no \<open>heat\<close>, the read at
  line 199 raises, whatever the energy balance type is.
\<close>

lemma build_heat_missing:
  assumes "defined ''control_volume'' ''properties_out''"
      and "defined ''split'' ''Vap''" and "defined ''split'' ''Liq''"
      and "is_True (has_heat_transfer cfg)"
      and "energy_balance_type cfg \<in> set EnergyBalanceType"
      and "\<not> defined ''control_volume'' ''heat''"
  shows "build defined cfg = Inl (AttributeError ''control_volume'' ''heat'')"
proof -
  from assms(5) have "py_ne (energy_balance_type cfg) (PyStr ''none'')"
    by (auto simp: EnergyBalanceType_def py_ne_enum_str)
  with assms(1-4,6) show ?thesis
    by (simp add: build_defs)
qed







text \<open>
  C10. \<open>CONFIG\<close> declares the default \<open>True\<close> for \<open>has_heat_transfer\<close>, whose
  documentation says \<open>**default** - False.\<close>, and the default \<open>True\<close> for
  \<open>has_pressure_change\<close>. A Flash constructed with the default configuration
  therefore has its energy balances with \<open>has_heat_transfer=True\<close>, its momentum
  balances with \<open>has_pressure_change=True\<close>, and the references \<open>heat_duty\<close> and
  \<open>deltaP\<close> to \<open>heat\<close> and \<open>deltaP\<close> of its control volume.
\<close>

theorem Flash_default_heat_and_pressure:
  "declared_default ''has_heat_transfer'' = Some (PyBool True) \<and>
   ''**default** - False.'' \<in> set (declared_doc ''has_heat_transfer'') \<and>
   declared_default ''has_pressure_change'' = Some (PyBool True) \<and>
   (\<exists>cfg. default_config pp = Some cfg \<and>
      has_heat_transfer cfg = PyBool True \<and> has_pressure_change cfg = PyBool True \<and>
      (\<forall>defined b. build defined cfg = Inr b \<longrightarrow>
         (\<exists>cv. getattr b ''control_volume'' = Some (ControlVolume0DBlock cv) \<and>
               add_energy_balances (PyEnum ''EnergyBalanceType'' ''enthalpyTotal'') (PyBool True)
                 \<in> set (calls cv) \<and>
               add_momentum_balances (PyEnum ''MomentumBalanceType'' ''pressureTotal'') (PyBool True)
                 \<in> set (calls cv)) \<and>
         getattr b ''heat_duty'' = Some (Reference (Member ''control_volume'' ''heat'')) \<and>
         getattr b ''deltaP'' = Some (Reference (Member ''control_volume'' ''deltaP''))))"
proof -
  have "''**default** - False.'' \<in> set (declared_doc ''has_heat_transfer'')"
    by (simp add: declared_doc_def CONFIG_def)
  moreover have "(\<exists>cv. getattr b ''control_volume'' = Some (ControlVolume0DBlock cv) \<and>
               add_energy_balances (PyEnum ''EnergyBalanceType'' ''enthalpyTotal'') (PyBool True)
                 \<in> set (calls cv) \<and>
               add_momentum_balances (PyEnum ''MomentumBalanceType'' ''pressureTotal'') (PyBool True)
                 \<in> set (calls cv)) \<and>
         getattr b ''heat_duty'' = Some (Reference (Member ''control_volume'' ''heat'')) \<and>
         getattr b ''deltaP'' = Some (Reference (Member ''control_volume'' ''deltaP''))"
    if "default_config pp = Some cfg" and "build defined cfg = Inr b" for cfg defined b
    using that(1)
    by (auto simp: build_Inr [OF that(2)] default_config_eq getattr_def is_True_def py_ne_enum_str)
  ultimately show ?thesis
    by (simp add: declared_defaults default_config_eq)
qed

theorem Flash_default_heat_and_pressure_witness:
  "\<exists>cfg b. default_config \<lparr>phase_list = [''Liq'', ''Vap'']\<rparr> = Some cfg \<and>
     build (\<lambda>obj m. True) cfg = Inr b \<and>
     getattr b ''heat_duty'' = Some (Reference (Member ''control_volume'' ''heat'')) \<and>
     getattr b ''deltaP'' = Some (Reference (Member ''control_volume'' ''deltaP''))"
proof -
  from Flash_default_heat_and_pressure [of "\<lparr>phase_list = [''Liq'', ''Vap'']\<rparr>"]
  obtain cfg where c: "default_config \<lparr>phase_list = [''Liq'', ''Vap'']\<rparr> = Some cfg"
    and r: "\<forall>defined b. build defined cfg = Inr b \<longrightarrow>
         getattr b ''heat_duty'' = Some (Reference (Member ''control_volume'' ''heat'')) \<and>
         getattr b ''deltaP'' = Some (Reference (Member ''control_volume'' ''deltaP''))"
    by blast
  obtain b where b: "build (\<lambda>obj m. True) cfg = Inr b"
    using build_returns [of "\<lambda>obj m. True" cfg] by auto
  with c r show ?thesis by blast
qed

section \<open>The tolerances of the solution tests\<close>


end
